theory Spec2Isabelle
  imports Complex_Main "HOL-Library.Word" "HOL-Library.Sublist"
begin

section \<open>Values of the JavaScript runtime\<close>

text \<open>
  A JavaScript number is an IEEE 754 double. It is modelled by its mathematical value: \<open>NaN\<close>,
  the two infinities, or a finite real (the sign of zero is not modelled).
\<close>

datatype number = NaN | NegInf | Fin real | PosInf

text \<open>
  The result of an arithmetic operation is the double nearest to the exact result, ties
  going to the even significand. \<open>to_double\<close> rounds a real so: the exponent \<open>e\<close> of the
  binade of \<open>x\<close> is at least -1022 (below, the doubles are subnormal), the spacing of the
  doubles there is \<open>2 powi (e - 52)\<close>, and what reaches \<open>2 powi 1024\<close> overflows to an infinity.
\<close>

definition round_half_even :: "real \<Rightarrow> int" where
  "round_half_even q =
     (let f = \<lfloor>q\<rfloor>; d = q - of_int f
      in if d < 1 / 2 then f else if 1 / 2 < d then f + 1 else if even f then f else f + 1)"

definition to_double :: "real \<Rightarrow> number" where
  "to_double x =
     (if x = 0 then Fin 0
      else
        (let e = max (- 1022) \<lfloor>log 2 \<bar>x\<bar>\<rfloor>;
             ulp = 2 powi (e - 52);
             y = of_int (round_half_even (x / ulp)) * ulp
         in if 2 powi 1024 \<le> \<bar>y\<bar> then (if 0 < x then PosInf else NegInf) else Fin y))"

text \<open>\<^verbatim>\<open>!amount\<close> is the negation of \<open>truthy\<close>: \<open>NaN\<close> and \<open>0\<close> are falsy.\<close>

fun truthy :: "number \<Rightarrow> bool" where
  "truthy NaN = False"
| "truthy (Fin x) = (x \<noteq> 0)"
| "truthy NegInf = True"
| "truthy PosInf = True"

fun isNaN :: "number \<Rightarrow> bool" where
  "isNaN NaN = True"
| "isNaN _ = False"

fun negate :: "number \<Rightarrow> number" where
  "negate NaN = NaN"
| "negate NegInf = PosInf"
| "negate PosInf = NegInf"
| "negate (Fin x) = Fin (- x)"

text \<open>The product \<^verbatim>\<open>a * b\<close>: of finite numbers, the exact product rounded to a double.\<close>

fun times_inf :: "number \<Rightarrow> number" where
  "times_inf NaN = NaN"
| "times_inf PosInf = PosInf"
| "times_inf NegInf = NegInf"
| "times_inf (Fin x) = (if x = 0 then NaN else if 0 < x then PosInf else NegInf)"

fun times_num :: "number \<Rightarrow> number \<Rightarrow> number" where
  "times_num (Fin x) (Fin y) = to_double (x * y)"
| "times_num NaN _ = NaN"
| "times_num _ NaN = NaN"
| "times_num PosInf b = times_inf b"
| "times_num NegInf b = negate (times_inf b)"
| "times_num a PosInf = times_inf a"
| "times_num a NegInf = negate (times_inf a)"

text \<open>The comparison \<^verbatim>\<open>a < b\<close>: false whenever an operand is \<open>NaN\<close>.\<close>

fun less_num :: "number \<Rightarrow> number \<Rightarrow> bool" where
  "less_num (Fin x) (Fin y) = (x < y)"
| "less_num NaN _ = False"
| "less_num _ NaN = False"
| "less_num PosInf _ = False"
| "less_num _ PosInf = True"
| "less_num _ NegInf = False"
| "less_num NegInf _ = True"

text \<open>\<^verbatim>\<open>s.includes(t)\<close>: \<open>t\<close> occurs in \<open>s\<close> as a contiguous substring.\<close>

fun includes_str :: "string \<Rightarrow> string \<Rightarrow> bool" where
  "includes_str [] t = (t = [])"
| "includes_str (c # s) t = (prefix t (c # s) \<or> includes_str s t)"

text \<open>A thrown \<^verbatim>\<open>Error\<close> object, with its \<^verbatim>\<open>message\<close>.\<close>

datatype error = Error (message: string)

type_synonym byte = "8 word"
type_synonym signature = string

section \<open>Data of the wallet and of its collaborators\<close>

text \<open>
  The object \<^verbatim>\<open>{ publicKey, secretKey }\<close> that is written to the keypair file: the public key
  in base 58 and the secret key as an array of numbers.
\<close>

record keypairData =
  data_publicKey :: string
  data_secretKey :: "int list"

text \<open>A \<^verbatim>\<open>Keypair\<close> object of the client library: both keys as bytes.\<close>

record Keypair =
  keypair_publicKey :: "byte list"
  keypair_secretKey :: "byte list"

text \<open>The argument of \<^verbatim>\<open>SystemProgram.transfer\<close>, and a \<^verbatim>\<open>Transaction\<close> object.\<close>

record transfer_params =
  fromPubkey :: "byte list"
  toPubkey :: string
  lamports :: number

record transaction =
  instructions :: "transfer_params list"
  recentBlockhash :: "string option"
  feePayer :: "byte list option"
  signers :: "byte list list"

definition new_Transaction :: transaction where
  "new_Transaction = \<lparr>instructions = [], recentBlockhash = None, feePayer = None, signers = []\<rparr>"

text \<open>
  What the endpoint returns for the history: a signature info (only its \<^verbatim>\<open>signature\<close> is
  read) and a confirmed transaction, whose \<^verbatim>\<open>blockTime\<close> and \<^verbatim>\<open>meta\<close> may be null.
\<close>

record signatureInfo =
  info_signature :: signature

record tx_status =
  err :: "string option"

record confirmed_tx =
  tx_slot :: nat
  tx_blockTime :: "number option"
  tx_meta_status :: "tx_status option"

text \<open>The record that \<^verbatim>\<open>getTransactionHistory\<close> builds for each signature.\<close>

record history_record =
  rec_signature :: signature
  rec_slot :: nat
  rec_blockTime :: "number option"
  rec_status :: tx_status

section \<open>The observable effects of a run\<close>

text \<open>
  A template literal is kept as the list of its pieces, so that no number formatting is
  modelled.
\<close>

datatype piece =
    Str string
  | Num number
  | Millis nat
  | Index nat
  | Ints "int list"
  | LocaleDate "number option"
  | Err error

text \<open>
  The trace of a run records the RPC calls, the delays, the console output, the writes to
  disk, and the library calls that construct, fill and sign a transaction. \<open>Sleep d\<close> holds
  the duration in milliseconds handed to \<^verbatim>\<open>setTimeout\<close>.
\<close>

datatype event =
    RequestAirdrop "byte list" number
  | ConfirmTransaction signature
  | GetBalance "byte list"
  | GetLatestBlockhash
  | SendTransaction transaction
  | GetConfirmedSignaturesForAddress2 "byte list" nat
  | GetConfirmedTransaction signature
  | Sleep nat
  | ConsoleLog "piece list"
  | ConsoleError "piece list"
  | WriteFile string string
  | NewTransaction
  | AddTransfer transfer_params
  | SignTransaction

text \<open>
  The state of a run: the files on disk, the number of funding requests the endpoint has
  received, and the trace, oldest effect first.
\<close>

record state =
  files :: "string \<rightharpoonup> string"
  calls :: nat
  trace :: "event list"

definition emit :: "event \<Rightarrow> state \<Rightarrow> state" where
  "emit ev s = s\<lparr>trace := trace s @ [ev]\<rparr>"

fun is_network :: "event \<Rightarrow> bool" where
  "is_network (RequestAirdrop _ _) = True"
| "is_network (ConfirmTransaction _) = True"
| "is_network (GetBalance _) = True"
| "is_network GetLatestBlockhash = True"
| "is_network (SendTransaction _) = True"
| "is_network (GetConfirmedSignaturesForAddress2 _ _) = True"
| "is_network (GetConfirmedTransaction _) = True"
| "is_network _ = False"

fun is_attempt :: "event \<Rightarrow> bool" where
  "is_attempt (RequestAirdrop _ _) = True"
| "is_attempt _ = False"

fun is_sleep :: "event \<Rightarrow> bool" where
  "is_sleep (Sleep _) = True"
| "is_sleep _ = False"

fun is_console :: "event \<Rightarrow> bool" where
  "is_console (ConsoleLog _) = True"
| "is_console (ConsoleError _) = True"
| "is_console _ = False"

fun sleeps :: "event list \<Rightarrow> nat list" where
  "sleeps [] = []"
| "sleeps (Sleep d # evs) = d # sleeps evs"
| "sleeps (_ # evs) = sleeps evs"

definition attempts :: "event list \<Rightarrow> nat" where
  "attempts evs = length (filter is_attempt evs)"

text \<open>The effects a computation added, given the states before and after it.\<close>

definition since :: "state \<Rightarrow> state \<Rightarrow> event list" where
  "since s s' = drop (length (trace s)) (trace s')"

section \<open>The collaborators\<close>

text \<open>
  The replies of the devnet endpoint are parameters. The replies to a funding request and to
  the confirmation that follows it depend on how many funding requests came before; the
  other replies depend on the arguments only. \<open>LAMPORTS_PER_SOL\<close> is the library's constant.
\<close>

record rpc =
  LAMPORTS_PER_SOL :: number
  requestAirdrop :: "nat \<Rightarrow> byte list \<Rightarrow> number \<Rightarrow> error + signature"
  confirmTransaction :: "nat \<Rightarrow> signature \<Rightarrow> error + unit"
  getBalance_rpc :: "byte list \<Rightarrow> error + number"
  getLatestBlockhash :: "error + string"
  sendTransaction :: "transaction \<Rightarrow> error + signature"
  getConfirmedSignaturesForAddress2 :: "byte list \<Rightarrow> nat \<Rightarrow> error + signatureInfo list"
  getConfirmedTransaction :: "signature \<Rightarrow> error + confirmed_tx option"

text \<open>
  The client library and the runtime are parameters too: \<open>Keypair_generate\<close> is the keypair
  that \<^verbatim>\<open>Keypair.generate()\<close> draws in this run; \<open>JSON_parse\<close> is \<^verbatim>\<open>JSON.parse\<close> on the text of
  the keypair file, read as an object of that shape.
\<close>

record lib =
  Keypair_generate :: Keypair
  Keypair_fromSecretKey :: "byte list \<Rightarrow> error + Keypair"
  toBase58 :: "byte list \<Rightarrow> string"
  JSON_stringify :: "keypairData \<Rightarrow> string"
  JSON_parse :: "string \<Rightarrow> error + keypairData"
  SystemProgram_transfer :: "transfer_params \<Rightarrow> error + transfer_params"
  sign :: "transaction \<Rightarrow> Keypair \<Rightarrow> error + transaction"

text \<open>What a piece of code that may call \<^verbatim>\<open>process.exit\<close> ends with.\<close>

datatype 'a outcome = Returned 'a | Thrown error | Exited nat

section \<open>The keypair file\<close>

definition KEYPAIR_FILE :: string where
  "KEYPAIR_FILE = ''keypair.json''"

text \<open>A write replaces the contents of the file; it is assumed not to fail.\<close>

definition writeFileSync :: "string \<Rightarrow> string \<Rightarrow> state \<Rightarrow> state" where
  "writeFileSync path data s = emit (WriteFile path data) (s\<lparr>files := (files s)(path \<mapsto> data)\<rparr>)"

text \<open>\<^verbatim>\<open>Array.from\<close> on bytes, and \<^verbatim>\<open>Uint8Array.from\<close> on integers (each reduced modulo 256).\<close>

definition Array_from :: "byte list \<Rightarrow> int list" where
  "Array_from bs = map uint bs"

definition Uint8Array_from :: "int list \<Rightarrow> byte list" where
  "Uint8Array_from ns = map word_of_int ns"

definition generateKeypair :: "lib \<Rightarrow> state \<Rightarrow> keypairData \<times> state" where
  "generateKeypair L s =
     (let keypair = Keypair_generate L;
          publicKey = toBase58 L (keypair_publicKey keypair);
          secretKey = Array_from (keypair_secretKey keypair);
          keypairData = \<lparr>data_publicKey = publicKey, data_secretKey = secretKey\<rparr>
      in (keypairData, writeFileSync KEYPAIR_FILE (JSON_stringify L keypairData) s))"

definition no_keypair_message :: string where
  "no_keypair_message =
     ''No keypair found. Please generate a keypair first using '' @ [CHR 0x22] @
     ''wallet generate-keypair'' @ [CHR 0x22] @ ''.''"

definition loadKeypair :: "lib \<Rightarrow> state \<Rightarrow> Keypair outcome \<times> state" where
  "loadKeypair L s =
     (case files s KEYPAIR_FILE of
        None \<Rightarrow> (Exited 1, emit (ConsoleError [Str no_keypair_message]) s)
      | Some contents \<Rightarrow>
          (case JSON_parse L contents of
             Inl e \<Rightarrow> (Thrown e, s)
           | Inr keypairData \<Rightarrow>
               (let secretKey = Uint8Array_from (data_secretKey keypairData)
                in case Keypair_fromSecretKey L secretKey of
                     Inl e \<Rightarrow> (Thrown e, s)
                   | Inr keypair \<Rightarrow> (Returned keypair, s))))"

section \<open>requestAirdropWithRetry\<close>

text \<open>The body of the \<^verbatim>\<open>try\<close> block: request, then wait for the confirmation.\<close>

definition try_airdrop ::
  "rpc \<Rightarrow> byte list \<Rightarrow> number \<Rightarrow> state \<Rightarrow> (error + signature) \<times> state" where
  "try_airdrop c publicKey amountInLamports s =
     (let n = calls s;
          s1 = emit (RequestAirdrop publicKey amountInLamports) (s\<lparr>calls := Suc n\<rparr>)
      in case requestAirdrop c n publicKey amountInLamports of
           Inl e \<Rightarrow> (Inl e, s1)
         | Inr airdropSignature \<Rightarrow>
             (let s2 = emit (ConfirmTransaction airdropSignature) s1
              in case confirmTransaction c n airdropSignature of
                   Inl e \<Rightarrow> (Inl e, s2)
                 | Inr _ \<Rightarrow> (Inr airdropSignature, s2)))"

text \<open>
  The \<^verbatim>\<open>while\<close> loop, as a recursion on what the loop changes: the retry count and the state
  of the run. \<open>maxRetries\<close> and \<open>retryCount\<close> are counts, and the delay
  \<^verbatim>\<open>Math.pow(2, retryCount) * 1000\<close> is computed exactly. The loop ends, since each round
  that does not leave it raises \<open>retryCount\<close>.
\<close>

function airdrop_loop ::
  "rpc \<Rightarrow> byte list \<Rightarrow> number \<Rightarrow> nat \<Rightarrow> nat \<Rightarrow> state \<Rightarrow> (error + signature) \<times> state" where
  "airdrop_loop c publicKey amountInLamports maxRetries retryCount s =
     (if retryCount < maxRetries then
        (case try_airdrop c publicKey amountInLamports s of
           (Inr airdropSignature, s1) \<Rightarrow> (Inr airdropSignature, s1)
         | (Inl e, s1) \<Rightarrow>
             if includes_str (message e) ''429'' then
               (let delay = 2 ^ retryCount * 1000;
                    s2 = emit (ConsoleLog
                           [Str ''Server responded with 429 Too Many Requests. Retrying after '',
                            Millis delay, Str ''ms delay...'']) s1;
                    s3 = emit (Sleep delay) s2
                in airdrop_loop c publicKey amountInLamports maxRetries (Suc retryCount) s3)
             else (Inl e, s1))
      else (Inl (Error ''Max retries exceeded for airdrop request.''), s))"
  by pat_completeness auto
termination
  by (relation "measure (\<lambda>(c, publicKey, amountInLamports, maxRetries, retryCount, s).
        maxRetries - retryCount)") auto

text \<open>The parameter \<^verbatim>\<open>maxRetries = 5\<close> is optional.\<close>

definition requestAirdropWithRetry ::
  "rpc \<Rightarrow> byte list \<Rightarrow> number \<Rightarrow> nat option \<Rightarrow> state \<Rightarrow> (error + signature) \<times> state" where
  "requestAirdropWithRetry c publicKey amountInSol maxRetries s =
     airdrop_loop c publicKey (times_num amountInSol (LAMPORTS_PER_SOL c))
       (case maxRetries of None \<Rightarrow> 5 | Some m \<Rightarrow> m) 0 s"

section \<open>sendSol, getBalance, getTransactionHistory\<close>

text \<open>
  \<open>sendSol\<close> constructs an empty \<^verbatim>\<open>Transaction\<close>, converts the amount and queries the
  balance; only after the balance check does it add the transfer, fetch a blockhash, sign
  and submit.
\<close>

definition sendSol ::
  "lib \<Rightarrow> rpc \<Rightarrow> Keypair \<Rightarrow> string \<Rightarrow> number \<Rightarrow> state \<Rightarrow> (error + signature) \<times> state" where
  "sendSol L c fromKeypair toPublicKey amountInSol s =
     (let transaction = new_Transaction;
          sn = emit NewTransaction s;
          amountInLamports = times_num amountInSol (LAMPORTS_PER_SOL c);
          s1 = emit (GetBalance (keypair_publicKey fromKeypair)) sn
      in case getBalance_rpc c (keypair_publicKey fromKeypair) of
           Inl e \<Rightarrow> (Inl e, s1)
         | Inr balance \<Rightarrow>
             if less_num balance amountInLamports
             then (Inl (Error ''Insufficient funds.''), s1)
             else
               (let params = \<lparr>fromPubkey = keypair_publicKey fromKeypair,
                               toPubkey = toPublicKey, lamports = amountInLamports\<rparr>;
                    s2 = emit (AddTransfer params) s1
                in case SystemProgram_transfer L params of
                     Inl e \<Rightarrow> (Inl e, s2)
                   | Inr instruction \<Rightarrow>
                       (let transaction = transaction\<lparr>instructions := [instruction]\<rparr>;
                            s3 = emit GetLatestBlockhash s2
                        in case getLatestBlockhash c of
                             Inl e \<Rightarrow> (Inl e, s3)
                           | Inr blockhash \<Rightarrow>
                               (let transaction = transaction
                                      \<lparr>recentBlockhash := Some blockhash,
                                       feePayer := Some (keypair_publicKey fromKeypair)\<rparr>;
                                    s4 = emit SignTransaction s3
                                in case sign L transaction fromKeypair of
                                     Inl e \<Rightarrow> (Inl e, s4)
                                   | Inr transaction \<Rightarrow>
                                       (let s5 = emit (SendTransaction transaction) s4
                                        in case sendTransaction c transaction of
                                             Inl e \<Rightarrow> (Inl e, s5)
                                           | Inr signature \<Rightarrow>
                                               (let s6 = emit (ConfirmTransaction signature) s5
                                                in case confirmTransaction c (calls s) signature of
                                                     Inl e \<Rightarrow> (Inl e, s6)
                                                   | Inr _ \<Rightarrow> (Inr signature, s6)))))))"

text \<open>The quotient \<^verbatim>\<open>a / b\<close>: of finite numbers, the exact quotient rounded to a double.\<close>

fun divide_num :: "number \<Rightarrow> number \<Rightarrow> number" where
  "divide_num (Fin x) (Fin y) =
     (if y \<noteq> 0 then to_double (x / y)
      else if x = 0 then NaN else if 0 < x then PosInf else NegInf)"
| "divide_num NaN _ = NaN"
| "divide_num _ NaN = NaN"
| "divide_num (Fin x) _ = Fin 0"
| "divide_num PosInf (Fin y) = (if 0 \<le> y then PosInf else NegInf)"
| "divide_num NegInf (Fin y) = (if 0 \<le> y then NegInf else PosInf)"
| "divide_num _ _ = NaN"

definition getBalance :: "rpc \<Rightarrow> byte list \<Rightarrow> state \<Rightarrow> (error + number) \<times> state" where
  "getBalance c publicKey s =
     (let s1 = emit (GetBalance publicKey) s
      in case getBalance_rpc c publicKey of
           Inl e \<Rightarrow> (Inl e, s1)
         | Inr balance \<Rightarrow> (Inr (divide_num balance (LAMPORTS_PER_SOL c)), s1))"

text \<open>
  The body of the \<^verbatim>\<open>map\<close> callback: reading a field of a null transaction or of a null
  \<^verbatim>\<open>meta\<close> throws a \<^verbatim>\<open>TypeError\<close>.
\<close>

definition history_entry :: "rpc \<Rightarrow> signatureInfo \<Rightarrow> error + history_record" where
  "history_entry c signatureInfo =
     (case getConfirmedTransaction c (info_signature signatureInfo) of
        Inl e \<Rightarrow> Inl e
      | Inr None \<Rightarrow> Inl (Error ''Cannot read properties of null'')
      | Inr (Some tx) \<Rightarrow>
          (case tx_meta_status tx of
             None \<Rightarrow> Inl (Error ''Cannot read properties of null'')
           | Some st \<Rightarrow>
               Inr \<lparr>rec_signature = info_signature signatureInfo, rec_slot = tx_slot tx,
                    rec_blockTime = tx_blockTime tx, rec_status = st\<rparr>))"

text \<open>
  \<^verbatim>\<open>Promise.all\<close>: all the values in order, or a failure. Of several failures the model
  reports the first in the order of the list.
\<close>

fun Promise_all :: "(error + 'a) list \<Rightarrow> error + 'a list" where
  "Promise_all [] = Inr []"
| "Promise_all (Inl e # rs) = Inl e"
| "Promise_all (Inr x # rs) = (case Promise_all rs of Inl e \<Rightarrow> Inl e | Inr xs \<Rightarrow> Inr (x # xs))"

definition getTransactionHistory ::
  "rpc \<Rightarrow> byte list \<Rightarrow> state \<Rightarrow> (error + history_record list) \<times> state" where
  "getTransactionHistory c publicKey s =
     (let s1 = emit (GetConfirmedSignaturesForAddress2 publicKey 10) s
      in case getConfirmedSignaturesForAddress2 c publicKey 10 of
           Inl e \<Rightarrow> (Inl e, s1)
         | Inr confirmedSignatures \<Rightarrow>
             (let s2 = s1\<lparr>trace := trace s1 @
                         map (\<lambda>signatureInfo. GetConfirmedTransaction (info_signature signatureInfo))
                           confirmedSignatures\<rparr>
              in (Promise_all (map (history_entry c) confirmedSignatures), s2)))"

section \<open>The commands\<close>

text \<open>
  The options of a command as the argument parser hands them over: an absent flag is
  \<open>None\<close>, and \<open>--amount\<close> has gone through \<^verbatim>\<open>parseFloat\<close>.
\<close>

datatype command =
    Cmd_generate_keypair
  | Cmd_airdrop "number option"
  | Cmd_send_sol "string option" "number option"
  | Cmd_balance
  | Cmd_history

definition generate_keypair_action :: "lib \<Rightarrow> state \<Rightarrow> unit outcome \<times> state" where
  "generate_keypair_action L s =
     (case generateKeypair L s of
        (keys, s1) \<Rightarrow>
          (Returned (),
           emit (ConsoleLog [Str ''Secret Key:'', Ints (data_secretKey keys)])
             (emit (ConsoleLog [Str ''Public Key:'', Str (data_publicKey keys)]) s1)))"

definition airdrop_action :: "lib \<Rightarrow> rpc \<Rightarrow> number option \<Rightarrow> state \<Rightarrow> unit outcome \<times> state" where
  "airdrop_action L c cmd_amount s =
     (case cmd_amount of
        None \<Rightarrow> (Exited 1, emit (ConsoleError [Str ''Invalid amount specified.'']) s)
      | Some amount \<Rightarrow>
          if \<not> truthy amount \<or> isNaN amount
          then (Exited 1, emit (ConsoleError [Str ''Invalid amount specified.'']) s)
          else
            (case loadKeypair L s of
               (Exited n, s1) \<Rightarrow> (Exited n, s1)
             | (Thrown e, s1) \<Rightarrow> (Thrown e, s1)
             | (Returned keypair, s1) \<Rightarrow>
                 (let publicKey = toBase58 L (keypair_publicKey keypair);
                      s2 = emit (ConsoleLog [Str ''Requesting airdrop of '', Num amount,
                                   Str '' SOL to Public Key: '', Str publicKey]) s1
                  in case requestAirdropWithRetry c (keypair_publicKey keypair) amount None s2 of
                       (Inr signature, s3) \<Rightarrow>
                         (Returned (),
                          emit (ConsoleLog [Str ''Airdrop confirmed.''])
                            (emit (ConsoleLog [Str ''Airdrop requested. Transaction Signature: '',
                                     Str signature]) s3))
                     | (Inl error, s3) \<Rightarrow>
                         (Returned (), emit (ConsoleError [Str ''Airdrop failed:'', Err error]) s3))))"

definition send_sol_action ::
  "lib \<Rightarrow> rpc \<Rightarrow> string option \<Rightarrow> number option \<Rightarrow> state \<Rightarrow> unit outcome \<times> state" where
  "send_sol_action L c cmd_to cmd_amount s =
     (case (cmd_to, cmd_amount) of
        (Some toPublicKey, Some amount) \<Rightarrow>
          if toPublicKey = [] \<or> \<not> truthy amount \<or> isNaN amount
          then (Exited 1, emit (ConsoleError [Str ''Invalid recipient or amount specified.'']) s)
          else
            (case loadKeypair L s of
               (Exited n, s1) \<Rightarrow> (Exited n, s1)
             | (Thrown e, s1) \<Rightarrow> (Thrown e, s1)
             | (Returned fromKeypair, s1) \<Rightarrow>
                 (let s2 = emit (ConsoleLog [Str ''Sending '', Num amount, Str '' SOL to '',
                                   Str toPublicKey, Str '' from Public Key: '',
                                   Str (toBase58 L (keypair_publicKey fromKeypair))]) s1
                  in case sendSol L c fromKeypair toPublicKey amount s2 of
                       (Inr signature, s3) \<Rightarrow>
                         (Returned (),
                          emit (ConsoleLog [Str ''Transfer successful. Transaction Signature: '',
                                  Str signature]) s3)
                     | (Inl error, s3) \<Rightarrow>
                         (Returned (), emit (ConsoleError [Str ''Transfer failed:'', Err error]) s3)))
      | _ \<Rightarrow> (Exited 1, emit (ConsoleError [Str ''Invalid recipient or amount specified.'']) s))"

definition balance_action :: "lib \<Rightarrow> rpc \<Rightarrow> state \<Rightarrow> unit outcome \<times> state" where
  "balance_action L c s =
     (case loadKeypair L s of
        (Exited n, s1) \<Rightarrow> (Exited n, s1)
      | (Thrown e, s1) \<Rightarrow> (Thrown e, s1)
      | (Returned keypair, s1) \<Rightarrow>
          (let publicKey = toBase58 L (keypair_publicKey keypair)
           in case getBalance c (keypair_publicKey keypair) s1 of
                (Inr balance, s2) \<Rightarrow>
                  (Returned (),
                   emit (ConsoleLog [Str ''Balance of Public Key '', Str publicKey, Str '': '',
                           Num balance, Str '' SOL'']) s2)
              | (Inl error, s2) \<Rightarrow>
                  (Returned (), emit (ConsoleError [Str ''Failed to get balance:'', Err error]) s2)))"

text \<open>The four lines that the \<^verbatim>\<open>forEach\<close> callback prints for the record at \<open>index\<close>.\<close>

definition history_lines :: "nat \<Rightarrow> history_record \<Rightarrow> event list" where
  "history_lines index tx =
     [ConsoleLog [Index (index + 1), Str ''. Signature: '', Str (rec_signature tx)],
      ConsoleLog [Str ''   Slot: '', Index (rec_slot tx)],
      ConsoleLog [Str ''   Block Time: '', LocaleDate (rec_blockTime tx)],
      ConsoleLog [Str ''   Status: '',
        Str (case err (rec_status tx) of Some _ \<Rightarrow> ''Failed'' | None \<Rightarrow> ''Success'')]]"

definition history_action :: "lib \<Rightarrow> rpc \<Rightarrow> state \<Rightarrow> unit outcome \<times> state" where
  "history_action L c s =
     (case loadKeypair L s of
        (Exited n, s1) \<Rightarrow> (Exited n, s1)
      | (Thrown e, s1) \<Rightarrow> (Thrown e, s1)
      | (Returned keypair, s1) \<Rightarrow>
          (let publicKey = toBase58 L (keypair_publicKey keypair)
           in case getTransactionHistory c (keypair_publicKey keypair) s1 of
                (Inr transactions, s2) \<Rightarrow>
                  (let s3 = emit (ConsoleLog [Str ''Transaction history for Public Key '',
                                    Str publicKey, Str '':'']) s2
                   in (Returned (),
                       s3\<lparr>trace := trace s3 @
                            concat (map (\<lambda>(index, tx). history_lines index tx)
                                      (enumerate 0 transactions))\<rparr>))
              | (Inl error, s2) \<Rightarrow>
                  (Returned (),
                   emit (ConsoleError [Str ''Failed to get transaction history:'', Err error]) s2)))"

text \<open>\<^verbatim>\<open>program.parse\<close> runs the action of the command that was given.\<close>

fun run :: "lib \<Rightarrow> rpc \<Rightarrow> command \<Rightarrow> state \<Rightarrow> unit outcome \<times> state" where
  "run L c Cmd_generate_keypair s = generate_keypair_action L s"
| "run L c (Cmd_airdrop cmd_amount) s = airdrop_action L c cmd_amount s"
| "run L c (Cmd_send_sol cmd_to cmd_amount) s = send_sol_action L c cmd_to cmd_amount s"
| "run L c Cmd_balance s = balance_action L c s"
| "run L c Cmd_history s = history_action L c s"

section \<open>Notions used to state the properties\<close>

text \<open>
  The endpoint's answer to the funding attempt number \<open>n\<close> (the outcome of the \<^verbatim>\<open>try\<close> block),
  and the RPC calls that this attempt makes.
\<close>

definition attempt_reply :: "rpc \<Rightarrow> byte list \<Rightarrow> number \<Rightarrow> nat \<Rightarrow> error + signature" where
  "attempt_reply c publicKey amountInLamports n =
     (case requestAirdrop c n publicKey amountInLamports of
        Inl e \<Rightarrow> Inl e
      | Inr airdropSignature \<Rightarrow>
          (case confirmTransaction c n airdropSignature of
             Inl e \<Rightarrow> Inl e
           | Inr _ \<Rightarrow> Inr airdropSignature))"

definition attempt_events :: "rpc \<Rightarrow> byte list \<Rightarrow> number \<Rightarrow> nat \<Rightarrow> event list" where
  "attempt_events c publicKey amountInLamports n =
     RequestAirdrop publicKey amountInLamports #
     (case requestAirdrop c n publicKey amountInLamports of
        Inl e \<Rightarrow> []
      | Inr airdropSignature \<Rightarrow> [ConfirmTransaction airdropSignature])"

text \<open>Attempt \<open>n\<close> fails with an error whose message carries the rate-limit signal.\<close>

definition rate_limited_at :: "rpc \<Rightarrow> byte list \<Rightarrow> number \<Rightarrow> nat \<Rightarrow> bool" where
  "rate_limited_at c publicKey amountInLamports n =
     (case attempt_reply c publicKey amountInLamports n of
        Inl e \<Rightarrow> includes_str (message e) ''429''
      | Inr _ \<Rightarrow> False)"

text \<open>Attempt \<open>n\<close> fails with an error \<open>e\<close> that is not classified as rate-limited.\<close>

definition fails_otherwise_at :: "rpc \<Rightarrow> byte list \<Rightarrow> number \<Rightarrow> nat \<Rightarrow> error \<Rightarrow> bool" where
  "fails_otherwise_at c publicKey amountInLamports n e =
     (attempt_reply c publicKey amountInLamports n = Inl e \<and> \<not> includes_str (message e) ''429'')"

text \<open>The message and the delay that follow the rate-limited attempt at retry count \<open>r\<close>.\<close>

definition backoff_events :: "nat \<Rightarrow> event list" where
  "backoff_events r =
     [ConsoleLog [Str ''Server responded with 429 Too Many Requests. Retrying after '',
                  Millis (2 ^ r * 1000), Str ''ms delay...''],
      Sleep (2 ^ r * 1000)]"

text \<open>
  The effects of \<open>k\<close> rate-limited rounds in a row, the first being attempt \<open>n\<close> at retry
  count \<open>r\<close>.
\<close>

fun retry_events :: "rpc \<Rightarrow> byte list \<Rightarrow> number \<Rightarrow> nat \<Rightarrow> nat \<Rightarrow> nat \<Rightarrow> event list" where
  "retry_events c publicKey amountInLamports n r 0 = []"
| "retry_events c publicKey amountInLamports n r (Suc k) =
     attempt_events c publicKey amountInLamports n @ backoff_events r @
     retry_events c publicKey amountInLamports (Suc n) (Suc r) k"

text \<open>The value of the optional parameter \<^verbatim>\<open>maxRetries = 5\<close>.\<close>

definition maxRetries_of :: "nat option \<Rightarrow> nat" where
  "maxRetries_of maxRetries = (case maxRetries of None \<Rightarrow> 5 | Some m \<Rightarrow> m)"

text \<open>The message of the error thrown when the loop runs out.\<close>

definition exhausted :: error where
  "exhausted = Error ''Max retries exceeded for airdrop request.''"

text \<open>The commands that load the keypair, and the argument check that each performs first.\<close>

fun requires_keypair :: "command \<Rightarrow> bool" where
  "requires_keypair Cmd_generate_keypair = False"
| "requires_keypair _ = True"

fun valid_arguments :: "command \<Rightarrow> bool" where
  "valid_arguments (Cmd_airdrop cmd_amount) =
     (case cmd_amount of None \<Rightarrow> False | Some amount \<Rightarrow> truthy amount \<and> \<not> isNaN amount)"
| "valid_arguments (Cmd_send_sol cmd_to cmd_amount) =
     (case (cmd_to, cmd_amount) of
        (Some toPublicKey, Some amount) \<Rightarrow> toPublicKey \<noteq> [] \<and> truthy amount \<and> \<not> isNaN amount
      | _ \<Rightarrow> False)"
| "valid_arguments _ = True"

text \<open>An endpoint that honours the \<^verbatim>\<open>limit\<close> of the signature query.\<close>

definition honours_limit :: "rpc \<Rightarrow> bool" where
  "honours_limit c =
     (\<forall>publicKey limit infos.
        getConfirmedSignaturesForAddress2 c publicKey limit = Inr infos \<longrightarrow> length infos \<le> limit)"

fun is_signature_query :: "event \<Rightarrow> bool" where
  "is_signature_query (GetConfirmedSignaturesForAddress2 _ _) = True"
| "is_signature_query _ = False"

section \<open>Concrete collaborators\<close>

definition s0 :: state where
  "s0 = \<lparr>files = Map.empty, calls = 0, trace = []\<rparr>"

text \<open>An endpoint that answers the first \<open>k\<close> funding requests with HTTP 429.\<close>

definition flaky :: "nat \<Rightarrow> rpc" where
  "flaky k =
     \<lparr>LAMPORTS_PER_SOL = Fin 1000000000,
      requestAirdrop = (\<lambda>n pk l. if n < k then Inl (Error ''429 Too Many Requests'')
                                  else Inr ''sig''),
      confirmTransaction = (\<lambda>n sg. Inr ()),
      getBalance_rpc = (\<lambda>pk. Inr (Fin 5)),
      getLatestBlockhash = Inr ''hash'',
      sendTransaction = (\<lambda>tx. Inr ''sent''),
      getConfirmedSignaturesForAddress2 =
        (\<lambda>pk n. Inr (take n [\<lparr>info_signature = ''a''\<rparr>, \<lparr>info_signature = ''b''\<rparr>])),
      getConfirmedTransaction =
        (\<lambda>sg. Inr (Some \<lparr>tx_slot = 7, tx_blockTime = None,
                          tx_meta_status = Some \<lparr>err = None\<rparr>\<rparr>))\<rparr>"

text \<open>An endpoint whose funding requests fail for another reason.\<close>

definition unreachable :: rpc where
  "unreachable = (flaky 0)\<lparr>requestAirdrop := (\<lambda>n pk l. Inl (Error ''fetch failed''))\<rparr>"

text \<open>An endpoint that reports a balance of exactly 0.1 SOL.\<close>

definition funded :: rpc where
  "funded = (flaky 0)\<lparr>getBalance_rpc := (\<lambda>pk. Inr (Fin 100000000))\<rparr>"

text \<open>The double nearest to 0.1, which is what \<^verbatim>\<open>parseFloat("0.1")\<close> yields.\<close>

definition tenth :: real where
  "tenth = 3602879701896397 / 2 ^ 55"

text \<open>
  A toy library. A secret key has four bytes, of which the last two are the public key;
  base 58 is replaced by one digit per byte; a document is the secret key, one digit per
  number, then a bar, then the public key.
\<close>

definition toy_digit :: "nat \<Rightarrow> char" where
  "toy_digit n = (if n < 10 then ''0123456789'' ! n else CHR ''?'')"

definition toy_value :: "char \<Rightarrow> int" where
  "toy_value ch = int (length (takeWhile (\<lambda>d. d \<noteq> ch) ''0123456789''))"

definition toy_keypair :: Keypair where
  "toy_keypair = \<lparr>keypair_publicKey = [3, 4], keypair_secretKey = [1, 2, 3, 4]\<rparr>"

definition other_keypair :: Keypair where
  "other_keypair = \<lparr>keypair_publicKey = [7, 8], keypair_secretKey = [5, 6, 7, 8]\<rparr>"

definition toy_stringify :: "keypairData \<Rightarrow> string" where
  "toy_stringify d =
     map (\<lambda>n. toy_digit (nat n)) (data_secretKey d) @ [CHR ''|''] @ data_publicKey d"

definition toy_parse :: "string \<Rightarrow> error + keypairData" where
  "toy_parse t =
     (if CHR ''|'' \<in> set t
      then Inr \<lparr>data_publicKey = tl (dropWhile (\<lambda>ch. ch \<noteq> CHR ''|'') t),
                data_secretKey = map toy_value (takeWhile (\<lambda>ch. ch \<noteq> CHR ''|'') t)\<rparr>
      else Inl (Error ''Unexpected end of JSON input''))"

definition toy_lib :: lib where
  "toy_lib =
     \<lparr>Keypair_generate = toy_keypair,
      Keypair_fromSecretKey =
        (\<lambda>sk. if length sk = 4
              then Inr \<lparr>keypair_publicKey = drop 2 sk, keypair_secretKey = sk\<rparr>
              else Inl (Error ''bad secret key size'')),
      toBase58 = map (\<lambda>b. toy_digit (unat b)),
      JSON_stringify = toy_stringify,
      JSON_parse = toy_parse,
      SystemProgram_transfer = (\<lambda>p. Inr p),
      sign = (\<lambda>tx kp. Inr (tx\<lparr>signers := [keypair_publicKey kp]\<rparr>))\<rparr>"

text \<open>The document that the toy library writes for \<open>toy_keypair\<close>, and a disk that holds it.\<close>

definition toy_data :: keypairData where
  "toy_data = \<lparr>data_publicKey = ''34'', data_secretKey = [1, 2, 3, 4]\<rparr>"

definition s_ready :: state where
  "s_ready = \<lparr>files = [KEYPAIR_FILE \<mapsto> toy_stringify toy_data], calls = 0, trace = []\<rparr>"

section \<open>Rounding to a double\<close>

lemma floor_log2_eq:
  fixes x :: real
  assumes "2 powi e \<le> \<bar>x\<bar>" and "\<bar>x\<bar> < 2 powi (e + 1)"
  shows "\<lfloor>log 2 \<bar>x\<bar>\<rfloor> = e"
proof -
  have "(0::real) < 2 powi e"
    by (rule zero_less_power_int) simp
  with assms(1) have pos: "0 < \<bar>x\<bar>"
    by linarith
  have lo: "(2::real) powr of_int e = 2 powi e"
    by (rule powr_real_of_int') simp_all
  have "(2::real) powr of_int (e + 1) = 2 powi (e + 1)"
    by (rule powr_real_of_int') simp_all
  then have hi: "(2::real) powr (of_int e + 1) = 2 powi (e + 1)"
    by simp
  from pos assms show ?thesis
    by (simp add: floor_log_eq_powr_iff lo hi)
qed

text \<open>The double nearest to \<open>x\<close>, once the binade of \<open>x\<close> is known.\<close>

lemma to_double_eval:
  assumes "2 powi e \<le> \<bar>x\<bar>" and "\<bar>x\<bar> < 2 powi (e + 1)" and "- 1022 \<le> e"
    and "round_half_even (x / 2 powi (e - 52)) = n"
    and "\<bar>of_int n * 2 powi (e - 52)\<bar> < (2::real) powi 1024"
  shows "to_double x = Fin (of_int n * 2 powi (e - 52))"
proof -
  have "(0::real) < 2 powi e"
    by (rule zero_less_power_int) simp
  with assms(1) have "x \<noteq> 0"
    by (cases "x = 0") simp_all
  moreover have "max (- 1022) \<lfloor>log 2 \<bar>x\<bar>\<rfloor> = e"
    using floor_log2_eq [OF assms(1,2)] assms(3) by simp
  ultimately show ?thesis
    using assms(4,5) by (simp add: to_double_def Let_def)
qed

lemma to_double_1e9: "to_double 1000000000 = Fin 1000000000"
proof -
  have "to_double 1000000000 = Fin (of_int 8388608000000000 * 2 powi (29 - 52))"
    by (rule to_double_eval) (simp_all add: round_half_even_def power_int_minus)
  then show ?thesis by (simp add: power_int_minus)
qed

lemma to_double_2e9: "to_double 2000000000 = Fin 2000000000"
proof -
  have "to_double 2000000000 = Fin (of_int 8388608000000000 * 2 powi (30 - 52))"
    by (rule to_double_eval) (simp_all add: round_half_even_def power_int_minus)
  then show ?thesis by (simp add: power_int_minus)
qed

text \<open>
  The product of 0.1 and \<open>10 ^ 9\<close> is \<open>10 ^ 8\<close>: the exact product of the two doubles lies
  above \<open>10 ^ 8\<close> by less than half the spacing of the doubles there.
\<close>

lemma times_tenth: "times_num (Fin tenth) (Fin 1000000000) = Fin 100000000"
proof -
  have "to_double (3602879701896397 / 2 ^ 55 * 1000000000)
      = Fin (of_int 6710886400000000 * 2 powi (26 - 52))"
    by (rule to_double_eval) (simp_all add: round_half_even_def power_int_minus)
  then show ?thesis by (simp add: power_int_minus tenth_def)
qed

lemma tenth_exact_product: "100000000 < tenth * 1000000000"
  by (simp add: tenth_def)

section \<open>The retry loop, round by round\<close>

declare airdrop_loop.simps [simp del]

lemma since_ext: "since s (s\<lparr>calls := n, trace := trace s @ evs\<rparr>) = evs"
  by (simp add: since_def)

lemma try_airdrop_eq:
  "try_airdrop c pk l s =
     (attempt_reply c pk l (calls s),
      s\<lparr>calls := Suc (calls s), trace := trace s @ attempt_events c pk l (calls s)\<rparr>)"
  by (simp add: try_airdrop_def attempt_reply_def attempt_events_def emit_def Let_def
      split: sum.splits)

lemma loop_exhausted:
  "m \<le> r \<Longrightarrow> airdrop_loop c pk l m r s = (Inl exhausted, s)"
  by (subst airdrop_loop.simps) (simp add: exhausted_def)

lemma loop_success:
  "r < m \<Longrightarrow> attempt_reply c pk l (calls s) = Inr sg \<Longrightarrow>
   airdrop_loop c pk l m r s =
     (Inr sg, s\<lparr>calls := Suc (calls s), trace := trace s @ attempt_events c pk l (calls s)\<rparr>)"
  by (subst airdrop_loop.simps) (simp add: try_airdrop_eq)

lemma loop_other:
  "r < m \<Longrightarrow> fails_otherwise_at c pk l (calls s) e \<Longrightarrow>
   airdrop_loop c pk l m r s =
     (Inl e, s\<lparr>calls := Suc (calls s), trace := trace s @ attempt_events c pk l (calls s)\<rparr>)"
  by (subst airdrop_loop.simps) (simp add: try_airdrop_eq fails_otherwise_at_def)

lemma loop_retry:
  "r < m \<Longrightarrow> rate_limited_at c pk l (calls s) \<Longrightarrow>
   airdrop_loop c pk l m r s =
     airdrop_loop c pk l m (Suc r)
       (s\<lparr>calls := Suc (calls s),
          trace := trace s @ attempt_events c pk l (calls s) @ backoff_events r\<rparr>)"
  by (subst airdrop_loop.simps)
     (auto simp add: try_airdrop_eq rate_limited_at_def backoff_events_def emit_def Let_def
      split: sum.splits)

lemma loop_retries:
  "\<forall>i<k. rate_limited_at c pk l (calls s + i) \<Longrightarrow> r + k \<le> m \<Longrightarrow>
   airdrop_loop c pk l m r s =
     airdrop_loop c pk l m (r + k)
       (s\<lparr>calls := calls s + k, trace := trace s @ retry_events c pk l (calls s) r k\<rparr>)"
proof (induction k arbitrary: r s)
  case 0
  then show ?case by simp
next
  case (Suc k)
  let ?s = "s\<lparr>calls := Suc (calls s),
          trace := trace s @ attempt_events c pk l (calls s) @ backoff_events r\<rparr>"
  from Suc.prems have first: "rate_limited_at c pk l (calls s)" and r: "r < m"
    by (auto dest: spec [of _ 0])
  have rest: "\<forall>i<k. rate_limited_at c pk l (calls ?s + i)"
  proof (intro allI impI)
    fix i assume "i < k"
    then have "Suc i < Suc k" by simp
    with Suc.prems(1) have "rate_limited_at c pk l (calls s + Suc i)" by blast
    then show "rate_limited_at c pk l (calls ?s + i)" by simp
  qed
  have "airdrop_loop c pk l m r s = airdrop_loop c pk l m (Suc r) ?s"
    using r first by (rule loop_retry)
  also have "\<dots> = airdrop_loop c pk l m (Suc r + k)
       (?s\<lparr>calls := calls ?s + k, trace := trace ?s @ retry_events c pk l (calls ?s) (Suc r) k\<rparr>)"
    using rest Suc.prems(2) by (intro Suc.IH) simp_all
  finally show ?case by simp
qed

lemma sleeps_append: "sleeps (xs @ ys) = sleeps xs @ sleeps ys"
  by (induction xs rule: sleeps.induct) simp_all

lemma sleeps_attempt_events: "sleeps (attempt_events c pk l n) = []"
  by (simp add: attempt_events_def split: sum.splits)

lemma sleeps_retry_events:
  "sleeps (retry_events c pk l n r k) = map (\<lambda>i. 2 ^ i * 1000) [r..<r + k]"
proof (induction k arbitrary: n r)
  case 0
  then show ?case by simp
next
  case (Suc k)
  have "[r..<r + Suc k] = r # [Suc r..<Suc r + k]"
    by (simp add: upt_conv_Cons)
  with Suc show ?case
    by (simp add: sleeps_append sleeps_attempt_events backoff_events_def)
qed

lemma attempts_append: "attempts (xs @ ys) = attempts xs + attempts ys"
  by (simp add: attempts_def)

lemma attempts_attempt_events: "attempts (attempt_events c pk l n) = 1"
  by (simp add: attempts_def attempt_events_def split: sum.splits)

lemma attempts_Nil: "attempts [] = 0"
  by (simp add: attempts_def)

lemma attempts_backoff_events: "attempts (backoff_events r) = 0"
  by (simp add: attempts_def backoff_events_def)

lemma attempts_retry_events: "attempts (retry_events c pk l n r k) = k"
  by (induction k arbitrary: n r)
     (simp_all add: attempts_Nil attempts_append attempts_attempt_events attempts_backoff_events)

lemma retry_events_snoc:
  "retry_events c pk l n r (Suc k) =
     retry_events c pk l n r k @ attempt_events c pk l (n + k) @ backoff_events (r + k)"
  by (induction k arbitrary: n r) simp_all

lemma exhausted_not_rate_limited: "\<not> includes_str (message exhausted) ''429''"
  by (simp add: exhausted_def)

lemma run_exhausted:
  assumes "\<forall>i<m. rate_limited_at c pk l (calls s + i)"
  shows "airdrop_loop c pk l m 0 s =
     (Inl exhausted, s\<lparr>calls := calls s + m, trace := trace s @ retry_events c pk l (calls s) 0 m\<rparr>)"
proof -
  have "airdrop_loop c pk l m 0 s = airdrop_loop c pk l m (0 + m)
       (s\<lparr>calls := calls s + m, trace := trace s @ retry_events c pk l (calls s) 0 m\<rparr>)"
    using assms by (intro loop_retries) simp_all
  then show ?thesis by (simp add: loop_exhausted)
qed

lemma run_stops:
  assumes "k < m" and "\<forall>i<k. rate_limited_at c pk l (calls s + i)"
    and "\<not> rate_limited_at c pk l (calls s + k)"
  shows "airdrop_loop c pk l m 0 s =
     (attempt_reply c pk l (calls s + k),
      s\<lparr>calls := calls s + Suc k,
        trace := trace s @ retry_events c pk l (calls s) 0 k @
                 attempt_events c pk l (calls s + k)\<rparr>)"
proof -
  let ?s = "s\<lparr>calls := calls s + k, trace := trace s @ retry_events c pk l (calls s) 0 k\<rparr>"
  let ?t = "?s\<lparr>calls := Suc (calls ?s), trace := trace ?s @ attempt_events c pk l (calls ?s)\<rparr>"
  have eq: "airdrop_loop c pk l m 0 s = airdrop_loop c pk l m (0 + k) ?s"
    using assms(1,2) by (intro loop_retries) simp_all
  have "airdrop_loop c pk l m k ?s = (attempt_reply c pk l (calls ?s), ?t)"
  proof (cases "attempt_reply c pk l (calls ?s)")
    case (Inr sg)
    with assms(1) show ?thesis by (simp add: loop_success)
  next
    case (Inl e)
    with assms(3) have "fails_otherwise_at c pk l (calls ?s) e"
      by (simp add: fails_otherwise_at_def rate_limited_at_def)
    with assms(1) Inl show ?thesis by (simp add: loop_other)
  qed
  with eq show ?thesis by simp
qed

lemma loop_stop:
  assumes "r < m" and "\<not> rate_limited_at c pk l (calls s)"
  shows "airdrop_loop c pk l m r s =
     (attempt_reply c pk l (calls s),
      s\<lparr>calls := Suc (calls s), trace := trace s @ attempt_events c pk l (calls s)\<rparr>)"
proof (cases "attempt_reply c pk l (calls s)")
  case (Inr sg)
  with assms(1) show ?thesis by (simp add: loop_success)
next
  case (Inl e)
  with assms(2) have "fails_otherwise_at c pk l (calls s) e"
    by (simp add: fails_otherwise_at_def rate_limited_at_def)
  with assms(1) Inl show ?thesis by (simp add: loop_other)
qed

lemma loop_frame:
  "\<exists>n evs. snd (airdrop_loop c pk l m r s) = s\<lparr>calls := n, trace := trace s @ evs\<rparr> \<and>
     list_all (\<lambda>ev. is_network ev \<or> is_sleep ev \<or> is_console ev) evs"
proof (induction "m - r" arbitrary: r s)
  case 0
  then have "m \<le> r" by simp
  then have "snd (airdrop_loop c pk l m r s) = s\<lparr>calls := calls s, trace := trace s @ []\<rparr>"
    by (simp add: loop_exhausted)
  moreover have "list_all (\<lambda>ev. is_network ev \<or> is_sleep ev \<or> is_console ev) []"
    by simp
  ultimately show ?case by blast
next
  case (Suc d)
  then have r: "r < m" by simp
  let ?t = "s\<lparr>calls := Suc (calls s), trace := trace s @ attempt_events c pk l (calls s)\<rparr>"
  have ev: "list_all (\<lambda>ev. is_network ev \<or> is_sleep ev \<or> is_console ev) (attempt_events c pk l (calls s))"
    by (simp add: attempt_events_def split: sum.splits)
  show ?case
  proof (cases "rate_limited_at c pk l (calls s)")
    case False
    then have "snd (airdrop_loop c pk l m r s) = ?t"
      using r by (simp add: loop_stop)
    with ev show ?thesis by blast
  next
    case True
    let ?u = "s\<lparr>calls := Suc (calls s),
          trace := trace s @ attempt_events c pk l (calls s) @ backoff_events r\<rparr>"
    have step: "airdrop_loop c pk l m r s = airdrop_loop c pk l m (Suc r) ?u"
      using r True by (rule loop_retry)
    from Suc.hyps(2) have "d = m - Suc r" by simp
    from Suc.hyps(1) [OF this, of ?u] obtain n evs where
      u: "snd (airdrop_loop c pk l m (Suc r) ?u) = ?u\<lparr>calls := n, trace := trace ?u @ evs\<rparr>"
      and evs: "list_all (\<lambda>ev. is_network ev \<or> is_sleep ev \<or> is_console ev) evs"
      by blast
    have "snd (airdrop_loop c pk l m r s) =
        s\<lparr>calls := n, trace := trace s @ (attempt_events c pk l (calls s) @ backoff_events r @ evs)\<rparr>"
      using step u by simp
    moreover have "list_all (\<lambda>ev. is_network ev \<or> is_sleep ev \<or> is_console ev)
        (attempt_events c pk l (calls s) @ backoff_events r @ evs)"
      using ev evs by (simp add: backoff_events_def)
    ultimately show ?thesis by blast
  qed
qed

lemma loop_first_attempt:
  assumes "r < m"
  shows "\<exists>n evs. snd (airdrop_loop c pk l m r s) =
           s\<lparr>calls := n, trace := trace s @ attempt_events c pk l (calls s) @ evs\<rparr>"
proof (cases "rate_limited_at c pk l (calls s)")
  case False
  with assms have "snd (airdrop_loop c pk l m r s) =
      s\<lparr>calls := Suc (calls s), trace := trace s @ attempt_events c pk l (calls s) @ []\<rparr>"
    by (simp add: loop_stop)
  then show ?thesis by blast
next
  case True
  let ?u = "s\<lparr>calls := Suc (calls s),
        trace := trace s @ attempt_events c pk l (calls s) @ backoff_events r\<rparr>"
  have step: "airdrop_loop c pk l m r s = airdrop_loop c pk l m (Suc r) ?u"
    using assms True by (rule loop_retry)
  obtain n evs where
    "snd (airdrop_loop c pk l m (Suc r) ?u) = ?u\<lparr>calls := n, trace := trace ?u @ evs\<rparr>"
    using loop_frame by blast
  with step have "snd (airdrop_loop c pk l m r s) =
      s\<lparr>calls := n, trace := trace s @ attempt_events c pk l (calls s) @ (backoff_events r @ evs)\<rparr>"
    by simp
  then show ?thesis by blast
qed

section \<open>Properties of requestAirdropWithRetry\<close>

text \<open>
  C1. When each of the first \<open>maxRetries\<close> funding attempts fails with a rate-limit error
  (as it does when every attempt fails so), \<open>requestAirdropWithRetry\<close> makes exactly
  \<open>maxRetries\<close> funding requests and then fails with the error "Max retries exceeded for
  airdrop request.", whose message does not carry the rate-limit signal.
\<close>

theorem all_rate_limited_exhausts:
  assumes "\<forall>i < maxRetries_of maxRetries.
             rate_limited_at c publicKey (times_num amountInSol (LAMPORTS_PER_SOL c)) (calls s + i)"
  shows "fst (requestAirdropWithRetry c publicKey amountInSol maxRetries s) = Inl exhausted \<and>
         attempts (since s (snd (requestAirdropWithRetry c publicKey amountInSol maxRetries s)))
           = maxRetries_of maxRetries \<and>
         \<not> includes_str (message exhausted) ''429''"
  using run_exhausted [OF assms]
  by (simp add: requestAirdropWithRetry_def maxRetries_of_def [symmetric] since_ext
      attempts_retry_events exhausted_not_rate_limited)

theorem all_rate_limited_exhausts_witness:
  "list_all (rate_limited_at (flaky 3) [] (Fin 2000000000)) [0, 1, 2] \<and>
   fst (requestAirdropWithRetry (flaky 3) [] (Fin 2) (Some 3) s0) = Inl exhausted \<and>
   attempts (since s0 (snd (requestAirdropWithRetry (flaky 3) [] (Fin 2) (Some 3) s0))) = 3"
  using all_rate_limited_exhausts [of "Some 3" "flaky 3" "[]" "Fin 2" s0]
  by (simp add: maxRetries_of_def rate_limited_at_def attempt_reply_def flaky_def s0_def
      to_double_2e9)

text \<open>
  C2. If the first \<open>K\<close> funding attempts fail with a rate-limit error and attempt \<open>K + 1\<close>
  succeeds, where \<open>K\<close> is below \<open>maxRetries\<close>, then \<open>requestAirdropWithRetry\<close> returns the
  signature of the successful attempt after exactly \<open>K + 1\<close> funding requests, and the delays
  are 1000 ms, 2000 ms, ..., \<open>2 ^ (K - 1) * 1000\<close> ms, one after each failed attempt and before
  the next one.
\<close>

theorem retries_then_succeeds:
  assumes "K < maxRetries_of maxRetries"
    and "\<forall>i<K. rate_limited_at c publicKey (times_num amountInSol (LAMPORTS_PER_SOL c)) (calls s + i)"
    and "attempt_reply c publicKey (times_num amountInSol (LAMPORTS_PER_SOL c)) (calls s + K) = Inr sg"
  shows "fst (requestAirdropWithRetry c publicKey amountInSol maxRetries s) = Inr sg \<and>
         attempts (since s (snd (requestAirdropWithRetry c publicKey amountInSol maxRetries s)))
           = K + 1 \<and>
         sleeps (since s (snd (requestAirdropWithRetry c publicKey amountInSol maxRetries s)))
           = map (\<lambda>i. 2 ^ i * 1000) [0..<K] \<and>
         since s (snd (requestAirdropWithRetry c publicKey amountInSol maxRetries s))
           = retry_events c publicKey (times_num amountInSol (LAMPORTS_PER_SOL c)) (calls s) 0 K @
             attempt_events c publicKey (times_num amountInSol (LAMPORTS_PER_SOL c)) (calls s + K)"
proof -
  from assms(3)
  have "\<not> rate_limited_at c publicKey (times_num amountInSol (LAMPORTS_PER_SOL c)) (calls s + K)"
    by (simp add: rate_limited_at_def)
  from run_stops [OF assms(1,2) this] assms(3) show ?thesis
    by (simp add: requestAirdropWithRetry_def maxRetries_of_def [symmetric] since_ext
        attempts_append attempts_retry_events attempts_attempt_events
        sleeps_append sleeps_retry_events sleeps_attempt_events)
qed

theorem retries_then_succeeds_witness:
  "(2::nat) < 5 \<and>
   list_all (rate_limited_at (flaky 2) [] (Fin 1000000000)) [0, 1] \<and>
   attempt_reply (flaky 2) [] (Fin 1000000000) 2 = Inr ''sig'' \<and>
   fst (requestAirdropWithRetry (flaky 2) [] (Fin 1) None s0) = Inr ''sig'' \<and>
   attempts (since s0 (snd (requestAirdropWithRetry (flaky 2) [] (Fin 1) None s0))) = 3 \<and>
   sleeps (since s0 (snd (requestAirdropWithRetry (flaky 2) [] (Fin 1) None s0))) = [1000, 2000]"
proof -
  have two: "[0..<2] = [0, Suc 0]"
    by (simp add: upt_conv_Cons)
  show ?thesis
    using retries_then_succeeds [of 2 None "flaky 2" "[]" "Fin 1" s0 "''sig''"]
    by (simp add: maxRetries_of_def rate_limited_at_def attempt_reply_def flaky_def s0_def two
        to_double_1e9 less_Suc_eq backoff_events_def attempts_append attempts_retry_events
        attempts_attempt_events sleeps_append sleeps_retry_events sleeps_attempt_events)
qed

text \<open>
  C3. If the first funding attempt fails with an error whose message does not contain
  "429", then \<open>requestAirdropWithRetry\<close> fails with that same error after exactly one funding
  request, with no retry and no delay. That a first attempt is made is the loop's guard:
  \<open>maxRetries\<close> is at least 1, as it is with the default 5.
\<close>

theorem other_failure_propagates:
  assumes "0 < maxRetries_of maxRetries"
    and "fails_otherwise_at c publicKey (times_num amountInSol (LAMPORTS_PER_SOL c)) (calls s) e"
  shows "fst (requestAirdropWithRetry c publicKey amountInSol maxRetries s) = Inl e \<and>
         attempts (since s (snd (requestAirdropWithRetry c publicKey amountInSol maxRetries s)))
           = 1 \<and>
         sleeps (since s (snd (requestAirdropWithRetry c publicKey amountInSol maxRetries s)))
           = [] \<and>
         since s (snd (requestAirdropWithRetry c publicKey amountInSol maxRetries s))
           = attempt_events c publicKey (times_num amountInSol (LAMPORTS_PER_SOL c)) (calls s)"
  using loop_other [OF assms]
  by (simp add: requestAirdropWithRetry_def maxRetries_of_def [symmetric] since_ext
      attempts_attempt_events sleeps_attempt_events)

theorem other_failure_propagates_witness:
  "(0::nat) < 5 \<and>
   fails_otherwise_at unreachable [] (Fin 1000000000) 0 (Error ''fetch failed'') \<and>
   fst (requestAirdropWithRetry unreachable [] (Fin 1) None s0) = Inl (Error ''fetch failed'') \<and>
   attempts (since s0 (snd (requestAirdropWithRetry unreachable [] (Fin 1) None s0))) = 1 \<and>
   sleeps (since s0 (snd (requestAirdropWithRetry unreachable [] (Fin 1) None s0))) = []"
  using other_failure_propagates [of None unreachable "[]" "Fin 1" s0 "Error ''fetch failed''"]
  by (simp add: maxRetries_of_def fails_otherwise_at_def attempt_reply_def unreachable_def
      flaky_def s0_def attempts_attempt_events sleeps_attempt_events to_double_1e9)

text \<open>
  C10. When every funding attempt fails rate-limited, the exponential delay is slept after
  every failed attempt, the last one included: there are \<open>maxRetries\<close> delays, and the run ends
  with the last attempt followed by a delay of \<open>2 ^ (maxRetries - 1) * 1000\<close> ms, after which the
  exhaustion error is raised.
\<close>

theorem exhaustion_sleeps_after_last_attempt:
  assumes "\<forall>i < maxRetries_of maxRetries.
             rate_limited_at c publicKey (times_num amountInSol (LAMPORTS_PER_SOL c)) (calls s + i)"
  shows "fst (requestAirdropWithRetry c publicKey amountInSol maxRetries s) = Inl exhausted \<and>
         sleeps (since s (snd (requestAirdropWithRetry c publicKey amountInSol maxRetries s)))
           = map (\<lambda>i. 2 ^ i * 1000) [0..<maxRetries_of maxRetries] \<and>
         length (sleeps (since s (snd (requestAirdropWithRetry c publicKey amountInSol maxRetries s))))
           = maxRetries_of maxRetries \<and>
         (0 < maxRetries_of maxRetries \<longrightarrow>
            since s (snd (requestAirdropWithRetry c publicKey amountInSol maxRetries s))
              = retry_events c publicKey (times_num amountInSol (LAMPORTS_PER_SOL c)) (calls s) 0
                  (maxRetries_of maxRetries - 1) @
                attempt_events c publicKey (times_num amountInSol (LAMPORTS_PER_SOL c))
                  (calls s + (maxRetries_of maxRetries - 1)) @
                backoff_events (maxRetries_of maxRetries - 1) \<and>
            last (since s (snd (requestAirdropWithRetry c publicKey amountInSol maxRetries s)))
              = Sleep (2 ^ (maxRetries_of maxRetries - 1) * 1000))"
proof -
  let ?m = "maxRetries_of maxRetries"
  let ?l = "times_num amountInSol (LAMPORTS_PER_SOL c)"
  have run: "requestAirdropWithRetry c publicKey amountInSol maxRetries s =
     (Inl exhausted,
      s\<lparr>calls := calls s + ?m, trace := trace s @ retry_events c publicKey ?l (calls s) 0 ?m\<rparr>)"
    using run_exhausted [OF assms]
    by (simp add: requestAirdropWithRetry_def maxRetries_of_def [symmetric])
  have shape: "retry_events c publicKey ?l (calls s) 0 ?m =
      retry_events c publicKey ?l (calls s) 0 (?m - 1) @
      attempt_events c publicKey ?l (calls s + (?m - 1)) @ backoff_events (?m - 1)"
    if "0 < ?m"
  proof -
    from that obtain k where k: "?m = Suc k"
      by (cases ?m) simp_all
    show ?thesis
      unfolding k by (simp add: retry_events_snoc del: retry_events.simps)
  qed
  have "last (retry_events c publicKey ?l (calls s) 0 ?m) = Sleep (2 ^ (?m - 1) * 1000)"
    if "0 < ?m"
    by (subst shape [OF that]) (simp add: backoff_events_def)
  with run shape show ?thesis
    by (simp add: since_ext sleeps_retry_events)
qed

theorem exhaustion_sleeps_after_last_attempt_witness:
  "list_all (rate_limited_at (flaky 2) [] (Fin 1000000000)) [0, 1] \<and>
   fst (requestAirdropWithRetry (flaky 2) [] (Fin 1) (Some 2) s0) = Inl exhausted \<and>
   sleeps (since s0 (snd (requestAirdropWithRetry (flaky 2) [] (Fin 1) (Some 2) s0)))
     = [1000, 2000] \<and>
   last (since s0 (snd (requestAirdropWithRetry (flaky 2) [] (Fin 1) (Some 2) s0))) = Sleep 2000"
proof -
  have two: "[0..<2] = [0, Suc 0]"
    by (simp add: upt_conv_Cons)
  show ?thesis
    using exhaustion_sleeps_after_last_attempt [of "Some 2" "flaky 2" "[]" "Fin 1" s0]
    by (simp add: maxRetries_of_def rate_limited_at_def attempt_reply_def flaky_def s0_def two
        to_double_1e9 less_Suc_eq backoff_events_def attempts_append attempts_retry_events
        attempts_attempt_events sleeps_append sleeps_retry_events sleeps_attempt_events)
qed

text \<open>
  C8, as amended. Whatever the endpoint does, \<open>requestAirdropWithRetry\<close> leaves the files on
  disk as they were; its only effects are RPC calls, delays and console output (the notice
  it logs before each delay).
\<close>

theorem airdrop_touches_no_local_state:
  "files (snd (requestAirdropWithRetry c publicKey amountInSol maxRetries s)) = files s \<and>
   list_all (\<lambda>ev. is_network ev \<or> is_sleep ev \<or> is_console ev)
     (since s (snd (requestAirdropWithRetry c publicKey amountInSol maxRetries s)))"
proof -
  obtain n evs where
    run: "snd (requestAirdropWithRetry c publicKey amountInSol maxRetries s) =
            s\<lparr>calls := n, trace := trace s @ evs\<rparr>"
    and evs: "list_all (\<lambda>ev. is_network ev \<or> is_sleep ev \<or> is_console ev) evs"
    unfolding requestAirdropWithRetry_def using loop_frame by blast
  show ?thesis
    unfolding run using evs by (simp add: since_ext)
qed

text \<open>
  C8 as stated fails on one rate-limited attempt: the run then contains an effect that is
  neither an RPC call nor a delay, the message written to the console.
\<close>

theorem airdrop_logs_to_console_counterexample:
  "\<not> list_all (\<lambda>ev. is_network ev \<or> is_sleep ev)
       (since s0 (snd (requestAirdropWithRetry (flaky 1) [] (Fin 1) None s0)))"
proof -
  have "rate_limited_at (flaky 1) [] (Fin 1000000000) (calls s0)"
    by (simp add: rate_limited_at_def attempt_reply_def flaky_def s0_def)
  then have "\<forall>i<1. rate_limited_at (flaky 1) [] (Fin 1000000000) (calls s0 + i)"
    by simp
  moreover have "\<not> rate_limited_at (flaky 1) [] (Fin 1000000000) (calls s0 + 1)"
    by (simp add: rate_limited_at_def attempt_reply_def flaky_def s0_def)
  ultimately have "airdrop_loop (flaky 1) [] (Fin 1000000000) 5 0 s0 =
     (attempt_reply (flaky 1) [] (Fin 1000000000) (calls s0 + 1),
      s0\<lparr>calls := calls s0 + Suc 1,
        trace := trace s0 @ retry_events (flaky 1) [] (Fin 1000000000) (calls s0) 0 1 @
                 attempt_events (flaky 1) [] (Fin 1000000000) (calls s0 + 1)\<rparr>)"
    by (intro run_stops) simp_all
  then show ?thesis
    by (simp add: requestAirdropWithRetry_def flaky_def since_ext backoff_events_def
        to_double_1e9)
qed

section \<open>Properties of the keypair file\<close>

lemma since_emit: "since s (emit ev s) = [ev]"
  by (simp add: since_def emit_def)

lemma since_append: "trace s' = trace s @ evs \<Longrightarrow> since s s' = evs"
  by (simp add: since_def)

lemma Uint8Array_from_Array_from: "Uint8Array_from (Array_from bs) = bs"
  by (simp add: Uint8Array_from_def Array_from_def comp_def)

lemma loadKeypair_missing:
  "files s KEYPAIR_FILE = None \<Longrightarrow>
   loadKeypair L s = (Exited 1, emit (ConsoleError [Str no_keypair_message]) s)"
  by (simp add: loadKeypair_def)

lemma loadKeypair_present:
  "files s KEYPAIR_FILE \<noteq> None \<Longrightarrow>
   (\<exists>e. loadKeypair L s = (Thrown e, s)) \<or> (\<exists>keypair. loadKeypair L s = (Returned keypair, s))"
  by (auto simp add: loadKeypair_def Let_def split: option.splits sum.splits)

lemma loadKeypair_Returned:
  "fst (loadKeypair L s) = Returned keypair \<Longrightarrow> loadKeypair L s = (Returned keypair, s)"
  by (auto simp add: loadKeypair_def Let_def split: option.splits sum.splits)

text \<open>What \<open>generateKeypair\<close> leaves on disk, and what \<open>loadKeypair\<close> makes of the disk.\<close>

lemma generateKeypair_writes:
  "files (snd (generateKeypair L s)) KEYPAIR_FILE
     = Some (JSON_stringify L (fst (generateKeypair L s)))"
  by (simp add: generateKeypair_def writeFileSync_def emit_def Let_def)

lemma loadKeypair_reads_file:
  assumes "files s KEYPAIR_FILE = Some contents"
  shows "loadKeypair L s =
     (case JSON_parse L contents of
        Inl e \<Rightarrow> (Thrown e, s)
      | Inr keypairData \<Rightarrow>
          (case Keypair_fromSecretKey L (Uint8Array_from (data_secretKey keypairData)) of
             Inl e \<Rightarrow> (Thrown e, s)
           | Inr keypair \<Rightarrow> (Returned keypair, s)))"
  using assms by (simp add: loadKeypair_def Let_def split: sum.splits)

lemma load_toy_keypair: "fst (loadKeypair toy_lib s_ready) = Returned toy_keypair"
  by (simp add: loadKeypair_def s_ready_def toy_lib_def Uint8Array_from_def toy_stringify_def
      toy_parse_def toy_value_def toy_digit_def toy_data_def toy_keypair_def)

text \<open>
  C5. \<open>generateKeypair\<close> persists the object it returns to the keypair file, and
  \<open>loadKeypair\<close>, run later on any disk whose keypair file holds what was written, by a
  process whose own \<^verbatim>\<open>Keypair.generate()\<close> would draw any other keypair, yields the generated
  keypair: its public key in base 58 and its secret key as an array are the ones that
  \<open>generateKeypair\<close> returned. The library and the runtime are external: the round trip
  needs that \<^verbatim>\<open>Keypair.fromSecretKey\<close> rebuilds the generated keypair from its secret key and
  that \<^verbatim>\<open>JSON.parse\<close> reads the written document back as the same object.
\<close>

theorem generate_then_load_round_trip:
  assumes "Keypair_fromSecretKey L (keypair_secretKey (Keypair_generate L)) = Inr (Keypair_generate L)"
    and "JSON_parse L (JSON_stringify L (fst (generateKeypair L s))) = Inr (fst (generateKeypair L s))"
    and "files s' KEYPAIR_FILE = files (snd (generateKeypair L s)) KEYPAIR_FILE"
  shows "files (snd (generateKeypair L s)) KEYPAIR_FILE
           = Some (JSON_stringify L (fst (generateKeypair L s))) \<and>
         (\<exists>keypair.
            loadKeypair (L\<lparr>Keypair_generate := other\<rparr>) s' = (Returned keypair, s') \<and>
            keypair = Keypair_generate L \<and>
            toBase58 L (keypair_publicKey keypair) = data_publicKey (fst (generateKeypair L s)) \<and>
            Array_from (keypair_secretKey keypair) = data_secretKey (fst (generateKeypair L s)))"
proof -
  let ?data = "fst (generateKeypair L s)"
  have on_disk: "files s' KEYPAIR_FILE = Some (JSON_stringify L ?data)"
    using assms(3) by (simp add: generateKeypair_writes)
  have bytes: "Uint8Array_from (data_secretKey ?data) = keypair_secretKey (Keypair_generate L)"
    by (simp add: generateKeypair_def Let_def Uint8Array_from_Array_from)
  have "loadKeypair (L\<lparr>Keypair_generate := other\<rparr>) s' = (Returned (Keypair_generate L), s')"
    using assms(1,2) by (simp add: loadKeypair_reads_file [OF on_disk] bytes)
  moreover have "toBase58 L (keypair_publicKey (Keypair_generate L)) = data_publicKey ?data"
    and "Array_from (keypair_secretKey (Keypair_generate L)) = data_secretKey ?data"
    by (simp_all add: generateKeypair_def Let_def)
  ultimately show ?thesis
    by (simp add: generateKeypair_writes)
qed

theorem generate_then_load_round_trip_witness:
  "Keypair_fromSecretKey toy_lib (keypair_secretKey (Keypair_generate toy_lib))
     = Inr (Keypair_generate toy_lib) \<and>
   JSON_parse toy_lib (JSON_stringify toy_lib (fst (generateKeypair toy_lib s0)))
     = Inr (fst (generateKeypair toy_lib s0)) \<and>
   files s_ready KEYPAIR_FILE = files (snd (generateKeypair toy_lib s0)) KEYPAIR_FILE \<and>
   fst (generateKeypair toy_lib s0) = \<lparr>data_publicKey = ''34'', data_secretKey = [1, 2, 3, 4]\<rparr> \<and>
   files (snd (generateKeypair toy_lib s0)) KEYPAIR_FILE = Some ''1234|34'' \<and>
   loadKeypair (toy_lib\<lparr>Keypair_generate := other_keypair\<rparr>) s_ready
     = (Returned \<lparr>keypair_publicKey = [3, 4], keypair_secretKey = [1, 2, 3, 4]\<rparr>, s_ready)"
proof -
  have data: "fst (generateKeypair toy_lib s0) = toy_data"
    by (simp add: generateKeypair_def toy_lib_def toy_keypair_def toy_data_def Array_from_def
        toy_digit_def Let_def)
  have doc: "toy_stringify toy_data = ''1234|34''"
    by (simp add: toy_stringify_def toy_data_def toy_digit_def)
  have parse: "toy_parse ''1234|34'' = Inr toy_data"
    by (simp add: toy_parse_def toy_data_def toy_value_def)
  have written: "files (snd (generateKeypair toy_lib s0)) KEYPAIR_FILE = Some ''1234|34''"
    using doc by (simp add: generateKeypair_writes data) (simp add: toy_lib_def)
  have ready: "files s_ready KEYPAIR_FILE = Some ''1234|34''"
    using doc by (simp add: s_ready_def)
  have rebuild: "Keypair_fromSecretKey toy_lib (keypair_secretKey (Keypair_generate toy_lib))
     = Inr (Keypair_generate toy_lib)"
    by (simp add: toy_lib_def toy_keypair_def)
  have reparse: "JSON_parse toy_lib (JSON_stringify toy_lib (fst (generateKeypair toy_lib s0)))
     = Inr (fst (generateKeypair toy_lib s0))"
    using doc parse by (simp add: data) (simp add: toy_lib_def)
  have same: "files s_ready KEYPAIR_FILE = files (snd (generateKeypair toy_lib s0)) KEYPAIR_FILE"
    using ready written by simp
  have gen: "Keypair_generate toy_lib = \<lparr>keypair_publicKey = [3, 4], keypair_secretKey = [1, 2, 3, 4]\<rparr>"
    by (simp add: toy_lib_def toy_keypair_def)
  from generate_then_load_round_trip [OF rebuild reparse same, of other_keypair]
  have "loadKeypair (toy_lib\<lparr>Keypair_generate := other_keypair\<rparr>) s_ready
     = (Returned (Keypair_generate toy_lib), s_ready)"
    by blast
  with rebuild reparse same written gen data show ?thesis
    by (simp add: toy_data_def)
qed

text \<open>
  C6. For each of the commands airdrop, send-sol, balance and history, given valid
  arguments: if the keypair file does not exist, the run prints the message "No keypair
  found. ..." on the error stream and exits with status 1, and this message is its only
  effect: no RPC call is made.
\<close>

theorem missing_keypair_exits_before_network:
  assumes "requires_keypair cmd" and "valid_arguments cmd" and "files s KEYPAIR_FILE = None"
  shows "fst (run L c cmd s) = Exited 1 \<and>
         since s (snd (run L c cmd s)) = [ConsoleError [Str no_keypair_message]] \<and>
         filter is_network (since s (snd (run L c cmd s))) = []"
proof (cases cmd)
  case Cmd_generate_keypair
  with assms(1) show ?thesis by simp
next
  case (Cmd_airdrop cmd_amount)
  with assms(2,3) show ?thesis
    by (auto simp add: airdrop_action_def loadKeypair_missing since_emit split: option.splits)
next
  case (Cmd_send_sol cmd_to cmd_amount)
  with assms(2,3) show ?thesis
    by (auto simp add: send_sol_action_def loadKeypair_missing since_emit split: option.splits)
next
  case Cmd_balance
  with assms(3) show ?thesis
    by (simp add: balance_action_def loadKeypair_missing since_emit)
next
  case Cmd_history
  with assms(3) show ?thesis
    by (simp add: history_action_def loadKeypair_missing since_emit)
qed

theorem missing_keypair_exits_before_network_witness:
  "list_all (\<lambda>cmd. requires_keypair cmd \<and> valid_arguments cmd \<and>
      fst (run toy_lib (flaky 0) cmd s0) = Exited 1 \<and>
      since s0 (snd (run toy_lib (flaky 0) cmd s0)) = [ConsoleError [Str no_keypair_message]])
     [Cmd_airdrop (Some (Fin 1)), Cmd_send_sol (Some ''to'') (Some (Fin 1)), Cmd_balance, Cmd_history] \<and>
   files s0 KEYPAIR_FILE = None"
  using missing_keypair_exits_before_network [of "Cmd_airdrop (Some (Fin 1))" s0 toy_lib "flaky 0"]
    missing_keypair_exits_before_network [of "Cmd_send_sol (Some ''to'') (Some (Fin 1))" s0 toy_lib "flaky 0"]
    missing_keypair_exits_before_network [of Cmd_balance s0 toy_lib "flaky 0"]
    missing_keypair_exits_before_network [of Cmd_history s0 toy_lib "flaky 0"]
  by (simp add: s0_def)

section \<open>Properties of the commands\<close>

lemma falsy_number: "(\<not> truthy a \<or> isNaN a) = (a = NaN \<or> a = Fin 0)"
  by (cases a) simp_all

lemma airdrop_action_funds:
  assumes "truthy amount" and "\<not> isNaN amount" and "fst (loadKeypair L s) = Returned keypair"
  shows "fst (airdrop_action L c (Some amount) s) = Returned () \<and>
         (\<exists>rest. filter is_network (since s (snd (airdrop_action L c (Some amount) s))) =
            RequestAirdrop (keypair_publicKey keypair) (times_num amount (LAMPORTS_PER_SOL c)) # rest)"
proof -
  let ?pk = "keypair_publicKey keypair"
  let ?l = "times_num amount (LAMPORTS_PER_SOL c)"
  let ?s2 = "emit (ConsoleLog [Str ''Requesting airdrop of '', Num amount,
               Str '' SOL to Public Key: '', Str (toBase58 L ?pk)]) s"
  let ?run = "requestAirdropWithRetry c ?pk amount None ?s2"
  have "\<exists>n evs. snd ?run =
      ?s2\<lparr>calls := n, trace := trace ?s2 @ attempt_events c ?pk ?l (calls ?s2) @ evs\<rparr>"
    unfolding requestAirdropWithRetry_def by (simp add: loop_first_attempt)
  then obtain n evs where
    run: "snd ?run = ?s2\<lparr>calls := n, trace := trace ?s2 @ attempt_events c ?pk ?l (calls ?s2) @ evs\<rparr>"
    by blast
  obtain r s3 where r: "?run = (r, s3)"
    by (cases ?run)
  with run have s3: "trace s3 = trace ?s2 @ attempt_events c ?pk ?l (calls ?s2) @ evs"
    by simp
  have load: "loadKeypair L s = (Returned keypair, s)"
    using assms(3) by (rule loadKeypair_Returned)
  show ?thesis
  proof (cases r)
    case (Inl e)
    with assms(1,2) load r s3 show ?thesis
      by (simp add: airdrop_action_def Let_def since_def emit_def attempt_events_def)
  next
    case (Inr sg)
    with assms(1,2) load r s3 show ?thesis
      by (simp add: airdrop_action_def Let_def since_def emit_def attempt_events_def)
  qed
qed

text \<open>
  C4, as amended. The airdrop command calls \<^verbatim>\<open>process.exit(1)\<close> exactly when \<open>--amount\<close> is
  missing, is not a number, or is zero, or when the keypair file does not exist. For every
  amount that is a number other than zero, once the keypair is loaded the command returns
  normally and its first RPC call is the funding request of \<open>requestAirdropWithRetry\<close> for
  that key and amount.
\<close>

theorem airdrop_exit_status:
  "(fst (airdrop_action L c cmd_amount s) = Exited 1) =
     (cmd_amount = None \<or> cmd_amount = Some NaN \<or> cmd_amount = Some (Fin 0) \<or>
      files s KEYPAIR_FILE = None) \<and>
   (\<forall>amount keypair.
      cmd_amount = Some amount \<and> amount \<noteq> NaN \<and> amount \<noteq> Fin 0 \<and>
      fst (loadKeypair L s) = Returned keypair \<longrightarrow>
      fst (airdrop_action L c cmd_amount s) = Returned () \<and>
      (\<exists>rest. filter is_network (since s (snd (airdrop_action L c cmd_amount s))) =
         RequestAirdrop (keypair_publicKey keypair) (times_num amount (LAMPORTS_PER_SOL c)) # rest))"
proof (intro conjI allI impI)
  show "(fst (airdrop_action L c cmd_amount s) = Exited 1) =
     (cmd_amount = None \<or> cmd_amount = Some NaN \<or> cmd_amount = Some (Fin 0) \<or>
      files s KEYPAIR_FILE = None)"
  proof (cases cmd_amount)
    case None
    then show ?thesis by (simp add: airdrop_action_def)
  next
    case (Some amount)
    show ?thesis
    proof (cases "\<not> truthy amount \<or> isNaN amount")
      case True
      with Some show ?thesis
        using falsy_number [of amount] by (auto simp add: airdrop_action_def)
    next
      case False
      then have ok: "truthy amount" "\<not> isNaN amount" "amount \<noteq> NaN" "amount \<noteq> Fin 0"
        using falsy_number [of amount] by auto
      show ?thesis
      proof (cases "files s KEYPAIR_FILE = None")
        case True
        with Some ok show ?thesis
          by (simp add: airdrop_action_def loadKeypair_missing)
      next
        case False
        from loadKeypair_present [OF this, of L] Some ok False show ?thesis
          by (auto simp add: airdrop_action_def Let_def split: prod.splits sum.splits)
      qed
    qed
  qed
next
  fix amount keypair
  assume a: "cmd_amount = Some amount \<and> amount \<noteq> NaN \<and> amount \<noteq> Fin 0 \<and>
      fst (loadKeypair L s) = Returned keypair"
  then have "truthy amount" "\<not> isNaN amount"
    using falsy_number [of amount] by auto
  with a airdrop_action_funds [of amount L s keypair c]
  show "fst (airdrop_action L c cmd_amount s) = Returned ()"
    and "\<exists>rest. filter is_network (since s (snd (airdrop_action L c cmd_amount s))) =
         RequestAirdrop (keypair_publicKey keypair) (times_num amount (LAMPORTS_PER_SOL c)) # rest"
    by simp_all
qed

theorem airdrop_exit_status_witness:
  "fst (airdrop_action toy_lib (flaky 0) (Some (Fin 2)) s_ready) = Returned () \<and>
   fst (airdrop_action toy_lib (flaky 0) (Some (Fin 2)) s0) = Exited 1 \<and>
   fst (airdrop_action toy_lib (flaky 0) (Some NaN) s_ready) = Exited 1 \<and>
   fst (airdrop_action toy_lib (flaky 0) None s_ready) = Exited 1 \<and>
   (\<exists>rest. filter is_network
              (since s_ready (snd (airdrop_action toy_lib (flaky 0) (Some (Fin 2)) s_ready))) =
            RequestAirdrop [3, 4] (Fin 2000000000) # rest)"
proof -
  have load: "fst (loadKeypair toy_lib s_ready) =
      Returned \<lparr>keypair_publicKey = [3, 4], keypair_secretKey = [1, 2, 3, 4]\<rparr>"
    using load_toy_keypair by (simp add: toy_keypair_def)
  have present: "files s_ready KEYPAIR_FILE \<noteq> None" and missing: "files s0 KEYPAIR_FILE = None"
    by (simp_all add: s_ready_def s0_def)
  have lam: "times_num (Fin 2) (LAMPORTS_PER_SOL (flaky 0)) = Fin 2000000000"
    by (simp add: flaky_def to_double_2e9)
  show ?thesis
    using airdrop_exit_status [of toy_lib "flaky 0" "Some (Fin 2)" s_ready]
      airdrop_exit_status [of toy_lib "flaky 0" "Some (Fin 2)" s0]
      airdrop_exit_status [of toy_lib "flaky 0" "Some NaN" s_ready]
      airdrop_exit_status [of toy_lib "flaky 0" None s_ready]
      load present missing lam
    by simp
qed

text \<open>
  C4 as stated fails twice: the amount 0 is a number, yet the command exits with status 1
  without requesting funding; and with the valid amount 2 and no keypair file the command
  exits with status 1 as well.
\<close>

theorem airdrop_rejects_zero_counterexample:
  "Some (Fin 0) \<noteq> None \<and> \<not> isNaN (Fin 0) \<and>
   fst (run toy_lib (flaky 0) (Cmd_airdrop (Some (Fin 0))) s_ready) = Exited 1 \<and>
   attempts (since s_ready (snd (run toy_lib (flaky 0) (Cmd_airdrop (Some (Fin 0))) s_ready))) = 0 \<and>
   Some (Fin 2) \<noteq> None \<and> \<not> isNaN (Fin 2) \<and>
   fst (run toy_lib (flaky 0) (Cmd_airdrop (Some (Fin 2))) s0) = Exited 1 \<and>
   attempts (since s0 (snd (run toy_lib (flaky 0) (Cmd_airdrop (Some (Fin 2))) s0))) = 0"
  by (simp add: airdrop_action_def loadKeypair_def s0_def s_ready_def since_def emit_def
      attempts_def)

text \<open>
  C9, as amended. If the balance that the endpoint reports for the sender is below the
  product \<^verbatim>\<open>amountInSol * LAMPORTS_PER_SOL\<close> as the code computes it, \<open>sendSol\<close> fails with
  "Insufficient funds." when it has constructed an empty transaction and queried the
  balance, and these are its only effects: no transfer is added to the transaction, no
  blockhash is fetched, nothing is signed, and nothing is submitted.
\<close>

theorem insufficient_funds_sends_nothing:
  assumes "getBalance_rpc c (keypair_publicKey fromKeypair) = Inr balance"
    and "less_num balance (times_num amountInSol (LAMPORTS_PER_SOL c))"
  shows "fst (sendSol L c fromKeypair toPublicKey amountInSol s) = Inl (Error ''Insufficient funds.'') \<and>
         since s (snd (sendSol L c fromKeypair toPublicKey amountInSol s))
           = [NewTransaction, GetBalance (keypair_publicKey fromKeypair)]"
  using assms by (simp add: sendSol_def Let_def since_def emit_def)

theorem insufficient_funds_sends_nothing_witness:
  "getBalance_rpc (flaky 0) [3, 4] = Inr (Fin 5) \<and>
   less_num (Fin 5) (times_num (Fin 1) (LAMPORTS_PER_SOL (flaky 0))) \<and>
   fst (sendSol toy_lib (flaky 0) toy_keypair ''to'' (Fin 1) s0) = Inl (Error ''Insufficient funds.'') \<and>
   since s0 (snd (sendSol toy_lib (flaky 0) toy_keypair ''to'' (Fin 1) s0))
     = [NewTransaction, GetBalance [3, 4]]"
  using insufficient_funds_sends_nothing [of "flaky 0" toy_keypair "Fin 5" "Fin 1" toy_lib "''to''" s0]
  by (simp add: flaky_def toy_keypair_def to_double_1e9)

text \<open>
  C9 as stated fails in every run that ends with "Insufficient funds.": the transaction
  object has been constructed by then, before the balance is even queried.
\<close>

theorem insufficient_funds_after_construction_counterexample:
  "fst (sendSol toy_lib (flaky 0) toy_keypair ''to'' (Fin 1) s0) = Inl (Error ''Insufficient funds.'') \<and>
   hd (since s0 (snd (sendSol toy_lib (flaky 0) toy_keypair ''to'' (Fin 1) s0))) = NewTransaction"
  by (simp add: sendSol_def Let_def since_def emit_def flaky_def toy_keypair_def s0_def
      to_double_1e9)

text \<open>
  The balance test follows the rounded product. With a balance of \<open>10 ^ 8\<close> lamports and the
  amount 0.1, the exact product of the two doubles is above the balance, the product that
  the code computes is not, and the transfer is submitted.
\<close>

lemma sendSol_tenth_is_submitted:
  "fst (sendSol toy_lib funded toy_keypair ''to'' (Fin tenth) s0) = Inr ''sent'' \<and>
   since s0 (snd (sendSol toy_lib funded toy_keypair ''to'' (Fin tenth) s0)) =
     [NewTransaction, GetBalance [3, 4],
      AddTransfer \<lparr>fromPubkey = [3, 4], toPubkey = ''to'', lamports = Fin 100000000\<rparr>,
      GetLatestBlockhash, SignTransaction,
      SendTransaction \<lparr>instructions =
          [\<lparr>fromPubkey = [3, 4], toPubkey = ''to'', lamports = Fin 100000000\<rparr>],
        recentBlockhash = Some ''hash'', feePayer = Some [3, 4], signers = [[3, 4]]\<rparr>,
      ConfirmTransaction ''sent'']"
proof -
  have lam: "times_num (Fin tenth) (LAMPORTS_PER_SOL funded) = Fin 100000000"
    using times_tenth by (simp add: funded_def flaky_def)
  have bal: "getBalance_rpc funded [3, 4] = Inr (Fin 100000000)"
    by (simp add: funded_def flaky_def)
  show ?thesis
    using bal by (simp add: sendSol_def Let_def lam toy_keypair_def)
       (simp add: funded_def flaky_def toy_lib_def new_Transaction_def since_def emit_def s0_def)
qed

lemma Promise_all_length: "Promise_all rs = Inr xs \<Longrightarrow> length xs = length rs"
proof (induction rs arbitrary: xs)
  case Nil
  then show ?case by simp
next
  case (Cons r rs)
  then show ?case
    by (cases r) (auto split: sum.splits)
qed

lemma Promise_all_entries:
  "Promise_all (map f xs) = Inr ys \<Longrightarrow> list_all2 (\<lambda>x y. f x = Inr y) xs ys"
proof (induction xs arbitrary: ys)
  case Nil
  then show ?case by simp
next
  case (Cons x xs)
  then show ?case
    by (cases "f x") (auto split: sum.splits)
qed

lemma history_entry_fields:
  "history_entry c info = Inr h \<Longrightarrow>
   \<exists>tx st. getConfirmedTransaction c (info_signature info) = Inr (Some tx) \<and>
     tx_meta_status tx = Some st \<and>
     h = \<lparr>rec_signature = info_signature info, rec_slot = tx_slot tx,
          rec_blockTime = tx_blockTime tx, rec_status = st\<rparr>"
  by (auto simp add: history_entry_def split: sum.splits option.splits)

text \<open>
  C7. \<open>getTransactionHistory\<close> asks the endpoint once for the signatures of the account,
  with limit 10. With an endpoint that honours the limit, the list it returns has at most 10
  records, one per signature, each made of the fields signature, slot, blockTime and status
  taken from that signature's confirmed transaction.
\<close>

theorem history_at_most_ten:
  assumes "honours_limit c"
  shows "filter is_signature_query (since s (snd (getTransactionHistory c publicKey s)))
           = [GetConfirmedSignaturesForAddress2 publicKey 10] \<and>
         (\<forall>transactions. fst (getTransactionHistory c publicKey s) = Inr transactions \<longrightarrow>
            length transactions \<le> 10 \<and>
            (\<exists>infos. getConfirmedSignaturesForAddress2 c publicKey 10 = Inr infos \<and>
               list_all2
                 (\<lambda>info h. \<exists>tx st.
                    getConfirmedTransaction c (info_signature info) = Inr (Some tx) \<and>
                    tx_meta_status tx = Some st \<and>
                    h = \<lparr>rec_signature = info_signature info, rec_slot = tx_slot tx,
                         rec_blockTime = tx_blockTime tx, rec_status = st\<rparr>)
                 infos transactions))"
proof (cases "getConfirmedSignaturesForAddress2 c publicKey 10")
  case (Inl e)
  then show ?thesis
    by (simp add: getTransactionHistory_def Let_def since_emit)
next
  case (Inr infos)
  with assms have len: "length infos \<le> 10"
    by (auto simp add: honours_limit_def)
  have ev: "filter is_signature_query
      (map (\<lambda>signatureInfo. GetConfirmedTransaction (info_signature signatureInfo)) infos) = []"
    by (induction infos) simp_all
  have tr: "since s (snd (getTransactionHistory c publicKey s)) =
      GetConfirmedSignaturesForAddress2 publicKey 10 #
      map (\<lambda>signatureInfo. GetConfirmedTransaction (info_signature signatureInfo)) infos"
    using Inr by (simp add: getTransactionHistory_def Let_def since_def emit_def)
  have res: "fst (getTransactionHistory c publicKey s) = Promise_all (map (history_entry c) infos)"
    using Inr by (simp add: getTransactionHistory_def Let_def)
  have fields: "list_all2
       (\<lambda>info h. \<exists>tx st.
          getConfirmedTransaction c (info_signature info) = Inr (Some tx) \<and>
          tx_meta_status tx = Some st \<and>
          h = \<lparr>rec_signature = info_signature info, rec_slot = tx_slot tx,
               rec_blockTime = tx_blockTime tx, rec_status = st\<rparr>)
       infos transactions"
    if "Promise_all (map (history_entry c) infos) = Inr transactions" for transactions
    using Promise_all_entries [OF that]
    by (rule list_all2_mono) (rule history_entry_fields)
  show ?thesis
    unfolding tr res using len Inr ev fields
    by (auto dest: Promise_all_length)
qed

theorem history_at_most_ten_witness:
  "honours_limit (flaky 0) \<and>
   fst (getTransactionHistory (flaky 0) [3, 4] s0) =
     Inr [\<lparr>rec_signature = ''a'', rec_slot = 7, rec_blockTime = None, rec_status = \<lparr>err = None\<rparr>\<rparr>,
          \<lparr>rec_signature = ''b'', rec_slot = 7, rec_blockTime = None, rec_status = \<lparr>err = None\<rparr>\<rparr>] \<and>
   filter is_signature_query (since s0 (snd (getTransactionHistory (flaky 0) [3, 4] s0)))
     = [GetConfirmedSignaturesForAddress2 [3, 4] 10]"
proof -
  have h: "honours_limit (flaky 0)"
    by (auto simp add: honours_limit_def flaky_def)
  have "fst (getTransactionHistory (flaky 0) [3, 4] s0) =
     Inr [\<lparr>rec_signature = ''a'', rec_slot = 7, rec_blockTime = None, rec_status = \<lparr>err = None\<rparr>\<rparr>,
          \<lparr>rec_signature = ''b'', rec_slot = 7, rec_blockTime = None, rec_status = \<lparr>err = None\<rparr>\<rparr>]"
    by (simp add: getTransactionHistory_def flaky_def history_entry_def Let_def)
  with h history_at_most_ten [OF h, of s0 "[3, 4]"] show ?thesis
    by simp
qed

end
